theory Spec2Isabelle
  imports Complex_Main "HOL-Library.Log_Nat"
begin

section \<open>JavaScript values\<close>

text \<open>
  A JavaScript number is an IEEE 754 double: a finite value, one of the two infinities,
  or NaN. A finite value is kept as the rational it denotes; the doubles are the
  rationals that \<open>round_to_double\<close> below leaves unchanged, and every arithmetic result
  is rounded to one. The sign of zero is not represented (\<open>-0 === 0\<close> holds in
  JavaScript, so the two zeros are one value here).
\<close>

datatype jsnum = Fin rat | PosInf | NegInf | NaN

text \<open>
  The values that can reach \<open>execute\<close> as \<open>request.matrix\<close>: \<open>undefined\<close> (property
  absent) and everything a JSON body can hold. An object is its list of properties;
  no property of such a value is a function.
\<close>

datatype jsval =
    JUndefined
  | JNull
  | JBool bool
  | JNum jsnum
  | JStr string
  | JArr "jsval list"
  | JObj "(string \<times> jsval) list"

section \<open>Errors (src/domain/errors/app.errors.ts)\<close>

record AppError_obj =
  name :: string
  message :: string
  statusCode :: nat
  errorCode :: string
  details :: "string option"

text \<open>
  A constructor parameter with a default takes \<open>None\<close> for an omitted argument;
  the optional \<open>details\<close> stays \<open>None\<close> (JavaScript \<open>undefined\<close>).
\<close>

definition AppError :: "string \<Rightarrow> nat option \<Rightarrow> string option \<Rightarrow> string option \<Rightarrow> AppError_obj" where
  "AppError msg sc ec det =
     \<lparr> name = ''AppError'',
       message = msg,
       statusCode = (case sc of None \<Rightarrow> 500 | Some s \<Rightarrow> s),
       errorCode = (case ec of None \<Rightarrow> ''SERVER_ERROR'' | Some c \<Rightarrow> c),
       details = det \<rparr>"

definition InvalidMatrixError :: "string option \<Rightarrow> AppError_obj" where
  "InvalidMatrixError det = AppError ''Invalid matrix provided.'' (Some 400) (Some ''INVALID_MATRIX'') det"

definition GoApiError :: "string option \<Rightarrow> string option \<Rightarrow> nat option \<Rightarrow> AppError_obj" where
  "GoApiError msg det sc =
     AppError (case msg of None \<Rightarrow> ''Error communicating with Go API.'' | Some m \<Rightarrow> m)
       (Some (case sc of None \<Rightarrow> 500 | Some s \<Rightarrow> s)) (Some ''GO_API_ERROR'') det"

definition UnauthorizedError :: "string option \<Rightarrow> AppError_obj" where
  "UnauthorizedError det =
     AppError ''Authentication required or invalid token.'' (Some 401) (Some ''UNAUTHORIZED'') det"

section \<open>Domain entities (src/domain/entities/matrix.ts)\<close>

type_synonym Matrix = "jsnum list list"

record QRFactorization =
  Q :: Matrix
  R :: Matrix

record GoApiResponseData =
  original_matrix :: Matrix
  rotated_matrix :: Matrix
  qr_factorization :: QRFactorization

text \<open>
  \<open>GoApiResponse\<close>: the body of a reply of the Go API. Its fields \<open>data\<close>, \<open>message\<close>,
  \<open>error\<close> and \<open>details\<close> carry the prefix \<open>body_\<close> here, since \<open>message\<close> and \<open>details\<close>
  are fields of the error objects too.
\<close>

record GoApiResponse =
  body_data :: "GoApiResponseData option"
  body_message :: "string option"
  body_error :: "string option"
  body_details :: "string option"

record MatrixStatistics =
  maxValue :: jsnum
  minValue :: jsnum
  average :: jsnum
  totalSum :: jsnum
  isDiagonalOriginal :: bool
  isDiagonalRotated :: bool

record ProcessedMatrixResult =
  originalMatrix :: Matrix
  rotatedMatrix :: Matrix
  qrFactorization :: QRFactorization
  statistics :: MatrixStatistics

record MatrixProcessingRequest =
  matrix :: jsval

section \<open>Thrown values\<close>

text \<open>
  \<open>error.response\<close> of an Axios error: the HTTP status and the body (which may be missing).
\<close>

record HttpResponse =
  status :: nat
  data :: "GoApiResponse option"

record AxiosError =
  axios_message :: string
  response :: "HttpResponse option"
  request :: bool

text \<open>
  What a \<open>throw\<close> or a rejected promise carries: one of the application's errors, an
  Axios error, a \<open>TypeError\<close> of the runtime, or any other \<open>Error\<close> with its message.
  The text of a runtime \<open>TypeError\<close> belongs to the engine, not to the source; the
  model records the failed access in its place.
\<close>

datatype thrown =
    AppErr AppError_obj
  | AxiosErr AxiosError
  | TypeError string
  | PlainError string

fun thrown_message :: "thrown \<Rightarrow> string" where
  "thrown_message (AppErr e) = message e"
| "thrown_message (AxiosErr e) = axios_message e"
| "thrown_message (TypeError m) = m"
| "thrown_message (PlainError m) = m"

text \<open>\<open>error.response\<close>: only an Axios error has the property.\<close>

fun thrown_response :: "thrown \<Rightarrow> HttpResponse option" where
  "thrown_response (AxiosErr e) = response e"
| "thrown_response _ = None"

section \<open>JavaScript operations used by the validation\<close>

text \<open>Truthiness, for \<open>!matrix\<close>.\<close>

fun truthy :: "jsval \<Rightarrow> bool" where
  "truthy JUndefined = False"
| "truthy JNull = False"
| "truthy (JBool b) = b"
| "truthy (JNum n) = (n \<noteq> Fin 0 \<and> n \<noteq> NaN)"
| "truthy (JStr s) = (s \<noteq> [])"
| "truthy (JArr xs) = True"
| "truthy (JObj ps) = True"

text \<open>\<open>v.length\<close>: a \<open>TypeError\<close> on \<open>undefined\<close> and \<open>null\<close>, \<open>undefined\<close> where there is no such property.\<close>

fun get_length :: "jsval \<Rightarrow> thrown + jsval" where
  "get_length JUndefined = Inl (TypeError ''length of undefined'')"
| "get_length JNull = Inl (TypeError ''length of null'')"
| "get_length (JStr s) = Inr (JNum (Fin (of_nat (length s))))"
| "get_length (JArr xs) = Inr (JNum (Fin (of_nat (length xs))))"
| "get_length (JObj ps) = Inr (case map_of ps ''length'' of None \<Rightarrow> JUndefined | Some v \<Rightarrow> v)"
| "get_length _ = Inr JUndefined"

text \<open>\<open>v[0]\<close>.\<close>

fun get_first :: "jsval \<Rightarrow> thrown + jsval" where
  "get_first JUndefined = Inl (TypeError ''0 of undefined'')"
| "get_first JNull = Inl (TypeError ''0 of null'')"
| "get_first (JStr s) = Inr (case s of [] \<Rightarrow> JUndefined | c # _ \<Rightarrow> JStr [c])"
| "get_first (JArr xs) = Inr (case xs of [] \<Rightarrow> JUndefined | x # _ \<Rightarrow> x)"
| "get_first (JObj ps) = Inr (case map_of ps ''0'' of None \<Rightarrow> JUndefined | Some v \<Rightarrow> v)"
| "get_first _ = Inr JUndefined"

fun isArray :: "jsval \<Rightarrow> bool" where
  "isArray (JArr xs) = True"
| "isArray _ = False"

text \<open>
  \<open>a === b\<close>. Two numbers are compared by value and NaN equals nothing; values of
  different types are never equal. Two arrays or objects are equal only when they are the
  same object, which a value cannot tell: every comparison below has a number on its
  right, so that case is never reached.
\<close>

fun strictEquals :: "jsval \<Rightarrow> jsval \<Rightarrow> bool" where
  "strictEquals (JNum a) (JNum b) = (a \<noteq> NaN \<and> a = b)"
| "strictEquals JUndefined JUndefined = True"
| "strictEquals JNull JNull = True"
| "strictEquals (JBool a) (JBool b) = (a = b)"
| "strictEquals (JStr a) (JStr b) = (a = b)"
| "strictEquals _ _ = False"

text \<open>\<open>typeof item === 'number'\<close>.\<close>

fun isNumber :: "jsval \<Rightarrow> bool" where
  "isNumber (JNum n) = True"
| "isNumber _ = False"

text \<open>
  \<open>row.every(item => typeof item === 'number')\<close>: only an array has the method \<open>every\<close>;
  on any other value the call is a \<open>TypeError\<close>.
\<close>

fun every_isNumber :: "jsval \<Rightarrow> thrown + bool" where
  "every_isNumber (JArr items) = Inr (list_all isNumber items)"
| "every_isNumber _ = Inl (TypeError ''row.every is not a function'')"

text \<open>\<open>for (const row of matrix)\<close>: an array yields its elements, a string its characters;
  nothing else here is iterable.\<close>

fun iterate :: "jsval \<Rightarrow> thrown + jsval list" where
  "iterate (JArr xs) = Inr xs"
| "iterate (JStr s) = Inr (map (\<lambda>c. JStr [c]) s)"
| "iterate _ = Inl (TypeError ''matrix is not iterable'')"

section \<open>Input validation (execute, steps 1 and 2)\<close>

definition emptyOrMalformed :: thrown where
  "emptyOrMalformed = AppErr (InvalidMatrixError (Some ''Input matrix is empty or malformed.''))"

definition notRectangular :: thrown where
  "notRectangular = AppErr (InvalidMatrixError
     (Some ''Matrix must be rectangular (all rows must have the same number of columns).''))"

definition nonNumeric :: thrown where
  "nonNumeric = AppErr (InvalidMatrixError (Some ''Matrix must contain only arrays of numbers.''))"

text \<open>The body of the loop over the rows, and the loop.\<close>

fun checkRows :: "jsval \<Rightarrow> jsval list \<Rightarrow> thrown + unit" where
  "checkRows numCols [] = Inr ()"
| "checkRows numCols (row # rest) =
     (case get_length row of
        Inl e \<Rightarrow> Inl e
      | Inr len \<Rightarrow>
          if \<not> strictEquals len numCols then Inl notRectangular
          else (case every_isNumber row of
                  Inl e \<Rightarrow> Inl e
                | Inr ok \<Rightarrow> if \<not> ok then Inl nonNumeric else checkRows numCols rest))"

text \<open>
  The checks of \<open>execute\<close> before the gateway is called. The three operands of the first
  condition are evaluated left to right and the first true one decides.
\<close>

definition validateMatrix :: "jsval \<Rightarrow> thrown + unit" where
  "validateMatrix m =
     (if \<not> truthy m then Inl emptyOrMalformed
      else (case get_length m of
        Inl e \<Rightarrow> Inl e
      | Inr len \<Rightarrow>
          (if strictEquals len (JNum (Fin 0)) then Inl emptyOrMalformed
           else (case get_first m of
             Inl e \<Rightarrow> Inl e
           | Inr first \<Rightarrow>
               (if \<not> isArray first then Inl emptyOrMalformed
                else (case get_length first of
                  Inl e \<Rightarrow> Inl e
                | Inr numCols \<Rightarrow>
                    (case iterate m of
                       Inl e \<Rightarrow> Inl e
                     | Inr rows \<Rightarrow> checkRows numCols rows)))))))"

section \<open>Arithmetic on JavaScript numbers\<close>

text \<open>
  Rounding to the nearest double, ties to the even significand (the rounding of every
  arithmetic operation of JavaScript). For a positive \<open>a\<close>, \<open>floor_log2 a\<close> is the
  exponent \<open>e\<close> with \<open>2^e \<le> a < 2^(e+1)\<close>; a double has 53 significant bits, so the
  doubles around \<open>a\<close> are the multiples of \<open>2^(e-52)\<close>, the exponent of a subnormal
  number being held at \<open>-1022\<close>. A result of \<open>2^1024\<close> or more is an infinity.
\<close>

definition floor_log2 :: "rat \<Rightarrow> int" where
  "floor_log2 a =
     (let k = bitlen (fst (quotient_of a)) - bitlen (snd (quotient_of a))
      in if 2 powi k \<le> a then k else k - 1)"

definition round_half_even :: "rat \<Rightarrow> int" where
  "round_half_even q =
     (let f = \<lfloor>q\<rfloor>; r = q - of_int f
      in if r < 1 / 2 then f else if 1 / 2 < r then f + 1 else if even f then f else f + 1)"

definition round_to_double :: "rat \<Rightarrow> jsnum" where
  "round_to_double q =
     (if q = 0 then Fin 0
      else
        let a = \<bar>q\<bar>;
            e = max (floor_log2 a) (- 1022);
            ulp = 2 powi (e - 52);
            r = of_int (round_half_even (a / ulp)) * ulp
        in if 2 powi 1024 \<le> r then (if 0 < q then PosInf else NegInf)
           else Fin (if 0 < q then r else - r))"

text \<open>\<open>a + b\<close>: the exact sum of two finite values, rounded.\<close>

fun js_add :: "jsnum \<Rightarrow> jsnum \<Rightarrow> jsnum" where
  "js_add NaN _ = NaN"
| "js_add _ NaN = NaN"
| "js_add (Fin a) (Fin b) = round_to_double (a + b)"
| "js_add PosInf NegInf = NaN"
| "js_add NegInf PosInf = NaN"
| "js_add PosInf _ = PosInf"
| "js_add _ PosInf = PosInf"
| "js_add NegInf _ = NegInf"
| "js_add _ NegInf = NegInf"

text \<open>\<open>a < b\<close> on numbers; false as soon as one of them is NaN.\<close>

fun js_less :: "jsnum \<Rightarrow> jsnum \<Rightarrow> bool" where
  "js_less NaN _ = False"
| "js_less _ NaN = False"
| "js_less (Fin a) (Fin b) = (a < b)"
| "js_less NegInf NegInf = False"
| "js_less NegInf _ = True"
| "js_less _ NegInf = False"
| "js_less PosInf _ = False"
| "js_less _ PosInf = True"

text \<open>
  \<open>Math.max(...xs)\<close> and \<open>Math.min(...xs)\<close>: NaN as soon as one argument is NaN,
  \<open>-Infinity\<close> and \<open>Infinity\<close> for no argument at all.
\<close>

definition js_max2 :: "jsnum \<Rightarrow> jsnum \<Rightarrow> jsnum" where
  "js_max2 a b = (if a = NaN \<or> b = NaN then NaN else if js_less a b then b else a)"

definition js_min2 :: "jsnum \<Rightarrow> jsnum \<Rightarrow> jsnum" where
  "js_min2 a b = (if a = NaN \<or> b = NaN then NaN else if js_less b a then b else a)"

definition Math_max :: "jsnum list \<Rightarrow> jsnum" where
  "Math_max xs = foldl js_max2 NegInf xs"

definition Math_min :: "jsnum list \<Rightarrow> jsnum" where
  "Math_min xs = foldl js_min2 PosInf xs"

text \<open>\<open>a / n\<close> for \<open>n\<close> the length of an array: the exact quotient, rounded.\<close>

fun js_div_length :: "jsnum \<Rightarrow> nat \<Rightarrow> jsnum" where
  "js_div_length NaN n = NaN"
| "js_div_length (Fin a) n =
     (if n = 0 then (if a = 0 then NaN else if 0 < a then PosInf else NegInf)
      else round_to_double (a / of_nat n))"
| "js_div_length PosInf n = PosInf"
| "js_div_length NegInf n = NegInf"

section \<open>Statistics\<close>

text \<open>
  \<open>matrix[i][j]\<close>, with \<open>None\<close> for \<open>undefined\<close> (a column the row does not have). It is
  read for \<open>i < matrix.length\<close> only; a row index out of range would be a \<open>TypeError\<close>
  and has no value here either.
\<close>

definition cell :: "Matrix \<Rightarrow> nat \<Rightarrow> nat \<Rightarrow> jsnum option" where
  "cell m i j =
     (if i < length m then (if j < length (m ! i) then Some (m ! i ! j) else None) else None)"

text \<open>The inner and the outer loop of \<open>isDiagonal\<close>; \<open>False\<close> is the early \<open>return false\<close>.\<close>

function isDiagonal_cols :: "Matrix \<Rightarrow> nat \<Rightarrow> nat \<Rightarrow> nat \<Rightarrow> bool" where
  "isDiagonal_cols m cols i j =
     (if j < cols then
        (if i \<noteq> j \<and> cell m i j \<noteq> Some (Fin 0) then False
         else isDiagonal_cols m cols i (j + 1))
      else True)"
  by pat_completeness auto
termination
  by (relation "measure (\<lambda>(m, cols, i, j). cols - j)") auto

declare isDiagonal_cols.simps [simp del]

function isDiagonal_rows :: "Matrix \<Rightarrow> nat \<Rightarrow> nat \<Rightarrow> nat \<Rightarrow> bool" where
  "isDiagonal_rows m rows cols i =
     (if i < rows then
        (if \<not> isDiagonal_cols m cols i 0 then False
         else isDiagonal_rows m rows cols (i + 1))
      else True)"
  by pat_completeness auto
termination
  by (relation "measure (\<lambda>(m, rows, cols, i). rows - i)") auto

declare isDiagonal_rows.simps [simp del]

text \<open>
  \<open>isDiagonal\<close>: the same closure, word for word, in \<open>calculateMatrixStatistics\<close> and in
  \<open>CalculateMatrixStatsUseCase.execute\<close>. An array is never falsy, so \<open>!matrix\<close> is false.
\<close>

definition isDiagonal :: "Matrix \<Rightarrow> bool" where
  "isDiagonal m =
     (case m of
        [] \<Rightarrow> False
      | row0 # _ \<Rightarrow>
          (let rows = length m; cols = length row0
           in if rows \<noteq> cols then False else isDiagonal_rows m rows cols 0))"

text \<open>
  \<open>let allValues = []; a.forEach(row => allValues = allValues.concat(row));
  b.forEach(row => allValues = allValues.concat(row))\<close>.
\<close>

definition collectValues :: "Matrix \<Rightarrow> Matrix \<Rightarrow> jsnum list" where
  "collectValues a b = foldl (\<lambda>allValues row. allValues @ row) (foldl (\<lambda>allValues row. allValues @ row) [] a) b"

text \<open>The part of both statistics functions after the guards.\<close>

definition computeStatistics :: "jsnum list \<Rightarrow> Matrix \<Rightarrow> Matrix \<Rightarrow> MatrixStatistics" where
  "computeStatistics allValues a b =
     (let maxValue = Math_max allValues;
          minValue = Math_min allValues;
          totalSum = foldl (\<lambda>sum val. js_add sum val) (Fin 0) allValues;
          average = js_div_length totalSum (length allValues)
      in \<lparr> maxValue = maxValue, minValue = minValue, average = average, totalSum = totalSum,
           isDiagonalOriginal = isDiagonal a, isDiagonalRotated = isDiagonal b \<rparr>)"

definition noNumericValues :: thrown where
  "noNumericValues = AppErr (InvalidMatrixError
     (Some ''No numeric values found in matrices to calculate statistics.''))"

definition emptyOrInvalidMatrices :: thrown where
  "emptyOrInvalidMatrices = AppErr (InvalidMatrixError
     (Some ''Matrices provided are empty or invalid for statistics calculation.''))"

text \<open>\<open>ProcessMatrixAndGetStatsUseCase.calculateMatrixStatistics\<close>.\<close>

definition calculateMatrixStatistics :: "Matrix \<Rightarrow> Matrix \<Rightarrow> thrown + MatrixStatistics" where
  "calculateMatrixStatistics original rotated =
     (let allValues = collectValues original rotated
      in if length allValues = 0 then Inl noNumericValues
         else Inr (computeStatistics allValues original rotated))"

text \<open>\<open>CalculateMatrixStatsUseCase.execute\<close>.\<close>

definition CalculateMatrixStatsUseCase_execute :: "GoApiResponseData \<Rightarrow> thrown + MatrixStatistics" where
  "CalculateMatrixStatsUseCase_execute d =
     (if length (original_matrix d) = 0 \<or> length (rotated_matrix d) = 0 then Inl emptyOrInvalidMatrices
      else let allValues = collectValues (original_matrix d) (rotated_matrix d)
           in if length allValues = 0 then Inl noNumericValues
              else Inr (computeStatistics allValues (original_matrix d) (rotated_matrix d)))"

section \<open>The gateway (src/infrastructure/http-client/go-api.http-client.ts)\<close>

text \<open>The decimal digits of a number, for \<open>${status}\<close> in a template string.\<close>

definition digit :: "nat \<Rightarrow> char" where
  "digit d = ''0123456789'' ! d"

function showNat :: "nat \<Rightarrow> string" where
  "showNat n = (if n < 10 then [digit n] else showNat (n div 10) @ [digit (n mod 10)])"
  by pat_completeness auto
termination
  by (relation "measure id") auto

declare showNat.simps [simp del]

text \<open>The accented letters of the Spanish messages, as their UTF-8 bytes.\<close>

definition a_acute :: string where
  "a_acute = [CHR 0xC3, CHR 0xA1]"

definition o_acute :: string where
  "o_acute = [CHR 0xC3, CHR 0xB3]"

definition u_acute :: string where
  "u_acute = [CHR 0xC3, CHR 0xBA]"

text \<open>\<open>a || b\<close> for an optional string \<open>a\<close>: \<open>undefined\<close> and the empty string are falsy.\<close>

fun orElse :: "string option \<Rightarrow> string \<Rightarrow> string" where
  "orElse None b = b"
| "orElse (Some a) b = (if a = [] then b else a)"

text \<open>
  The response interceptor's error handler: what the promise of \<open>client.post\<close> is rejected
  with. Reading \<open>errorData.details\<close> of a missing body is a \<open>TypeError\<close>.
\<close>

definition interceptor :: "AxiosError \<Rightarrow> thrown" where
  "interceptor error =
     (case response error of
        Some resp \<Rightarrow>
          (case data resp of
             None \<Rightarrow> TypeError ''property of undefined errorData''
           | Some errorData \<Rightarrow>
               (if status resp = 401 then
                  AppErr (UnauthorizedError (Some (orElse (body_details errorData)
                    (''Token de acceso de la aplicaci'' @ o_acute @ ''n inv'' @ a_acute @ ''lido o expirado.''))))
                else if status resp = 400 \<and> body_error errorData = Some ''dimensiones_de_matriz_invalidas''
                  then AxiosErr error
                else AppErr (GoApiError
                  (Some (orElse (body_message errorData) (orElse (body_details errorData)
                     (''Go API responded with status '' @ showNat (status resp)))))
                  (Some (orElse (body_error errorData) (''HTTP_STATUS_'' @ showNat (status resp))))
                  (Some (status resp)))))
      | None \<Rightarrow>
          (if request error then
             AppErr (GoApiError (Some ''No response received from Go API. It might be down or unreachable.'')
               (Some ''NETWORK_ERROR'') None)
           else AppErr (GoApiError (Some (''Error setting up request to Go API: '' @ axios_message error))
               None None)))"

text \<open>
  The transport under the client: what \<open>client.post\<close> settles with before the
  interceptor runs, an Axios error or a response with its body (\<open>None\<close> when empty).
\<close>

type_synonym transport = "jsval \<Rightarrow> AxiosError + GoApiResponse option"

definition malformedResponse :: thrown where
  "malformedResponse = AppErr (GoApiError (Some ''Go API response data is malformed or missing.'') None None)"

text \<open>\<open>GoApiHttpClient.processMatrix\<close>; its \<open>catch\<close> throws the error again as it is.\<close>

definition processMatrix :: "transport \<Rightarrow> jsval \<Rightarrow> thrown + GoApiResponseData" where
  "processMatrix post m =
     (case post m of
        Inl error \<Rightarrow> Inl (interceptor error)
      | Inr body \<Rightarrow>
          (case body of
             None \<Rightarrow> Inl malformedResponse
           | Some b \<Rightarrow>
               (case body_data b of
                  None \<Rightarrow> Inl malformedResponse
                | Some d \<Rightarrow> Inr d)))"

section \<open>The use case (process-matrix-and-get-stats.usecase.ts)\<close>

text \<open>The port \<open>GoApiGateway\<close>: \<open>Inl\<close> is a rejected promise.\<close>

type_synonym GoApiGateway = "jsval \<Rightarrow> thrown + GoApiResponseData"

definition dimensionsFallback :: string where
  "dimensionsFallback =
     ''Las dimensiones de la matriz son inv'' @ a_acute @ ''lidas seg'' @ u_acute @ ''n la API de Go.''"

text \<open>
  The \<open>catch\<close> block of \<open>execute\<close>: the error thrown in place of the gateway's.
  \<open>error.response?.status\<close> is falsy without a response and for the status 0.
\<close>

definition translateGatewayError :: "thrown \<Rightarrow> thrown" where
  "translateGatewayError error =
     (case thrown_response error of
        None \<Rightarrow>
          AppErr (GoApiError
            (Some (''Fallo al conectar o error desconocido de la API de Go: '' @ thrown_message error))
            (Some ''NETWORK_ERROR'') None)
      | Some resp \<Rightarrow>
          (if status resp = 0 then
             AppErr (GoApiError
               (Some (''Fallo al conectar o error desconocido de la API de Go: '' @ thrown_message error))
               (Some ''NETWORK_ERROR'') None)
           else
             (case data resp of
                None \<Rightarrow>
                  AppErr (GoApiError
                    (Some (''Error de la API de Go con estado '' @ showNat (status resp) @ ''.''))
                    (Some ''GO_API_ERROR'') (Some (status resp)))
              | Some d \<Rightarrow>
                  (if status resp = 400 \<and> body_error d = Some ''dimensiones_de_matriz_invalidas''
                   then AppErr (InvalidMatrixError (Some (orElse (body_details d) dimensionsFallback)))
                   else AppErr (GoApiError
                     (Some (orElse (body_details d)
                        (''Error de la API de Go con estado '' @ showNat (status resp) @ ''.'')))
                     (Some (orElse (body_error d) ''GO_API_ERROR''))
                     (Some (status resp)))))))"

text \<open>
  \<open>ProcessMatrixAndGetStatsUseCase.execute\<close>. Beside the outcome (\<open>Inl\<close>: what it
  throws) it returns the arguments of the calls of \<open>goApiGateway.processMatrix\<close> it
  made, in order: what a mock of the gateway records.
\<close>

definition execute ::
    "GoApiGateway \<Rightarrow> MatrixProcessingRequest \<Rightarrow> (thrown + ProcessedMatrixResult) \<times> jsval list" where
  "execute goApiGateway req =
     (let m = matrix req
      in case validateMatrix m of
           Inl e \<Rightarrow> (Inl e, [])
         | Inr _ \<Rightarrow>
             (case goApiGateway m of
                Inl error \<Rightarrow> (Inl (translateGatewayError error), [m])
              | Inr goResult \<Rightarrow>
                  (case calculateMatrixStatistics (original_matrix goResult) (rotated_matrix goResult) of
                     Inl e \<Rightarrow> (Inl e, [m])
                   | Inr stats \<Rightarrow>
                       (Inr \<lparr> originalMatrix = original_matrix goResult,
                              rotatedMatrix = rotated_matrix goResult,
                              qrFactorization = qr_factorization goResult,
                              statistics = stats \<rparr>, [m]))))"

section \<open>The diagonal predicate\<close>

text \<open>What the two loops compute.\<close>

lemma isDiagonal_cols_iff:
  "isDiagonal_cols m cols i j \<longleftrightarrow> (\<forall>k. j \<le> k \<and> k < cols \<and> i \<noteq> k \<longrightarrow> cell m i k = Some (Fin 0))"
proof (induction m cols i j rule: isDiagonal_cols.induct)
  case (1 m cols i j)
  show ?case
  proof (cases "j < cols")
    case False
    then show ?thesis by (subst isDiagonal_cols.simps) auto
  next
    case True
    show ?thesis
    proof (cases "i \<noteq> j \<and> cell m i j \<noteq> Some (Fin 0)")
      case bad: True
      then have "\<not> isDiagonal_cols m cols i j"
        using True by (subst isDiagonal_cols.simps) simp
      moreover have "\<not> (\<forall>k. j \<le> k \<and> k < cols \<and> i \<noteq> k \<longrightarrow> cell m i k = Some (Fin 0))"
        using True bad by blast
      ultimately show ?thesis by blast
    next
      case ok: False
      have "isDiagonal_cols m cols i j = isDiagonal_cols m cols i (j + 1)"
        using True ok by (subst isDiagonal_cols.simps) auto
      also have "\<dots> \<longleftrightarrow> (\<forall>k. j + 1 \<le> k \<and> k < cols \<and> i \<noteq> k \<longrightarrow> cell m i k = Some (Fin 0))"
        using "1.IH" True ok by blast
      also have "\<dots> \<longleftrightarrow> (\<forall>k. j \<le> k \<and> k < cols \<and> i \<noteq> k \<longrightarrow> cell m i k = Some (Fin 0))"
      proof
        assume h: "\<forall>k. j + 1 \<le> k \<and> k < cols \<and> i \<noteq> k \<longrightarrow> cell m i k = Some (Fin 0)"
        show "\<forall>k. j \<le> k \<and> k < cols \<and> i \<noteq> k \<longrightarrow> cell m i k = Some (Fin 0)"
        proof (intro allI impI)
          fix k assume k: "j \<le> k \<and> k < cols \<and> i \<noteq> k"
          show "cell m i k = Some (Fin 0)"
          proof (cases "k = j")
            case True then show ?thesis using ok k by auto
          next
            case False then have "j + 1 \<le> k" using k by arith
            then show ?thesis using h k by blast
          qed
        qed
      next
        assume "\<forall>k. j \<le> k \<and> k < cols \<and> i \<noteq> k \<longrightarrow> cell m i k = Some (Fin 0)"
        then show "\<forall>k. j + 1 \<le> k \<and> k < cols \<and> i \<noteq> k \<longrightarrow> cell m i k = Some (Fin 0)"
          by auto
      qed
      finally show ?thesis .
    qed
  qed
qed

lemma isDiagonal_rows_iff:
  "isDiagonal_rows m rows cols i \<longleftrightarrow> (\<forall>r. i \<le> r \<and> r < rows \<longrightarrow> isDiagonal_cols m cols r 0)"
proof (induction m rows cols i rule: isDiagonal_rows.induct)
  case (1 m rows cols i)
  show ?case
  proof (cases "i < rows")
    case False
    then show ?thesis by (subst isDiagonal_rows.simps) auto
  next
    case True
    show ?thesis
    proof (cases "isDiagonal_cols m cols i 0")
      case bad: False
      then have "\<not> isDiagonal_rows m rows cols i"
        using True by (subst isDiagonal_rows.simps) simp
      moreover have "\<not> (\<forall>r. i \<le> r \<and> r < rows \<longrightarrow> isDiagonal_cols m cols r 0)"
        using True bad by blast
      ultimately show ?thesis by blast
    next
      case ok: True
      have "isDiagonal_rows m rows cols i = isDiagonal_rows m rows cols (i + 1)"
        using True ok by (subst isDiagonal_rows.simps) auto
      also have "\<dots> \<longleftrightarrow> (\<forall>r. i + 1 \<le> r \<and> r < rows \<longrightarrow> isDiagonal_cols m cols r 0)"
        using "1.IH" True ok by blast
      also have "\<dots> \<longleftrightarrow> (\<forall>r. i \<le> r \<and> r < rows \<longrightarrow> isDiagonal_cols m cols r 0)"
      proof
        assume h: "\<forall>r. i + 1 \<le> r \<and> r < rows \<longrightarrow> isDiagonal_cols m cols r 0"
        show "\<forall>r. i \<le> r \<and> r < rows \<longrightarrow> isDiagonal_cols m cols r 0"
        proof (intro allI impI)
          fix r assume r: "i \<le> r \<and> r < rows"
          show "isDiagonal_cols m cols r 0"
          proof (cases "r = i")
            case True then show ?thesis using ok by simp
          next
            case False then have "i + 1 \<le> r" using r by arith
            then show ?thesis using h r by blast
          qed
        qed
      next
        assume "\<forall>r. i \<le> r \<and> r < rows \<longrightarrow> isDiagonal_cols m cols r 0"
        then show "\<forall>r. i + 1 \<le> r \<and> r < rows \<longrightarrow> isDiagonal_cols m cols r 0"
          by auto
      qed
      finally show ?thesis .
    qed
  qed
qed

lemma isDiagonal_Cons:
  "isDiagonal (row0 # rest) \<longleftrightarrow>
     (length (row0 # rest) = length row0 \<and> isDiagonal_rows (row0 # rest) (length (row0 # rest)) (length row0) 0)"
  by (simp add: isDiagonal_def Let_def)

lemma isDiagonal_loops_iff:
  "isDiagonal_rows m rows cols 0 \<longleftrightarrow>
     (\<forall>i<rows. \<forall>j<cols. i \<noteq> j \<longrightarrow> cell m i j = Some (Fin 0))"
  unfolding isDiagonal_rows_iff isDiagonal_cols_iff by blast

lemma isDiagonal_iff:
  "isDiagonal m \<longleftrightarrow>
     (\<exists>row0 rest. m = row0 # rest \<and> length m = length row0 \<and>
        (\<forall>i<length m. \<forall>j<length row0. i \<noteq> j \<longrightarrow> cell m i j = Some (Fin 0)))"
proof (cases m)
  case Nil
  then show ?thesis by (simp add: isDiagonal_def)
next
  case (Cons row0 rest)
  show ?thesis
    unfolding Cons isDiagonal_Cons isDiagonal_loops_iff by simp
qed

lemma isDiagonal_rectangular:
  assumes rect: "\<forall>row \<in> set m. length row = length (hd m)"
  shows "isDiagonal m \<longleftrightarrow>
     (m \<noteq> [] \<and> length m = length (hd m) \<and>
        (\<forall>i<length m. \<forall>j<length (m ! i). i \<noteq> j \<longrightarrow> m ! i ! j = Fin 0))"
proof (cases m)
  case Nil
  then show ?thesis by (simp add: isDiagonal_def)
next
  case (Cons row0 rest)
  have len: "\<And>i. i < length m \<Longrightarrow> length (m ! i) = length row0"
    using rect Cons by (metis list.sel(1) nth_mem)
  have "isDiagonal m \<longleftrightarrow> (length m = length row0 \<and>
        (\<forall>i<length m. \<forall>j<length row0. i \<noteq> j \<longrightarrow> cell m i j = Some (Fin 0)))"
    unfolding isDiagonal_iff using Cons by simp
  also have "\<dots> \<longleftrightarrow> (length m = length row0 \<and>
        (\<forall>i<length m. \<forall>j<length (m ! i). i \<noteq> j \<longrightarrow> m ! i ! j = Fin 0))"
    using len by (auto simp: cell_def)
  finally show ?thesis using Cons by simp
qed

lemma isDiagonal_1x1: "isDiagonal [[x]]"
  unfolding isDiagonal_iff by simp

lemma isDiagonal_nonsquare: "length (row0 # rest) \<noteq> length row0 \<Longrightarrow> \<not> isDiagonal (row0 # rest)"
  unfolding isDiagonal_iff by simp

text \<open>
  C4. \<open>isDiagonal\<close> holds for a matrix iff it has a first row, its number of rows is the
  length of that first row, and every entry \<open>matrix[i][j]\<close> with \<open>i \<noteq> j\<close>, for \<open>i\<close> below the
  number of rows and \<open>j\<close> below the number of columns, is there and is exactly zero. For a
  rectangular matrix these entries are all its off-diagonal cells. A matrix with no rows
  is never diagonal, a 1\<times>1 matrix always is, a matrix whose number of rows differs from
  the length of its first row never is; \<open>[[5]]\<close> and \<open>[[1,0],[0,2]]\<close> are diagonal,
  \<open>[[1,1],[0,2]]\<close> and \<open>[[1,2,3]]\<close> are not.
\<close>

theorem isDiagonal_spec:
  "(isDiagonal m \<longleftrightarrow>
      (\<exists>row0 rest. m = row0 # rest \<and> length m = length row0 \<and>
         (\<forall>i<length m. \<forall>j<length row0. i \<noteq> j \<longrightarrow> cell m i j = Some (Fin 0))))
   \<and> ((\<forall>row \<in> set m. length row = length (hd m)) \<longrightarrow>
        (isDiagonal m \<longleftrightarrow>
           (m \<noteq> [] \<and> length m = length (hd m) \<and>
            (\<forall>i<length m. \<forall>j<length (m ! i). i \<noteq> j \<longrightarrow> m ! i ! j = Fin 0))))
   \<and> \<not> isDiagonal []
   \<and> isDiagonal [[x]]
   \<and> (length (r # rs) \<noteq> length r \<longrightarrow> \<not> isDiagonal (r # rs))
   \<and> isDiagonal [[Fin 5]]
   \<and> isDiagonal [[Fin 1, Fin 0], [Fin 0, Fin 2]]
   \<and> \<not> isDiagonal [[Fin 1, Fin 1], [Fin 0, Fin 2]]
   \<and> \<not> isDiagonal [[Fin 1, Fin 2, Fin 3]]"
proof -
  have general: "isDiagonal m \<longleftrightarrow>
      (\<exists>row0 rest. m = row0 # rest \<and> length m = length row0 \<and>
         (\<forall>i<length m. \<forall>j<length row0. i \<noteq> j \<longrightarrow> cell m i j = Some (Fin 0)))"
    by (rule isDiagonal_iff)
  have rect: "(\<forall>row \<in> set m. length row = length (hd m)) \<longrightarrow>
        (isDiagonal m \<longleftrightarrow>
           (m \<noteq> [] \<and> length m = length (hd m) \<and>
            (\<forall>i<length m. \<forall>j<length (m ! i). i \<noteq> j \<longrightarrow> m ! i ! j = Fin 0)))"
    using isDiagonal_rectangular [of m] by blast
  have empty: "\<not> isDiagonal []"
    by (simp add: isDiagonal_def)
  have nonsquare: "length (r # rs) \<noteq> length r \<longrightarrow> \<not> isDiagonal (r # rs)"
    using isDiagonal_nonsquare [of r rs] by blast
  have e2: "isDiagonal [[Fin 1, Fin 0], [Fin 0, Fin 2]]"
    unfolding isDiagonal_iff by (simp add: cell_def less_Suc_eq)
  have "cell [[Fin 1, Fin 1], [Fin 0, Fin 2]] 0 1 \<noteq> Some (Fin 0)"
    by (simp add: cell_def)
  then have e3: "\<not> isDiagonal [[Fin 1, Fin 1], [Fin 0, Fin 2]]"
    unfolding isDiagonal_iff by force
  have e4: "\<not> isDiagonal [[Fin 1, Fin 2, Fin 3]]"
    unfolding isDiagonal_iff by simp
  show ?thesis
    using general rect empty isDiagonal_1x1 [of x] nonsquare isDiagonal_1x1 [of "Fin 5"] e2 e3 e4
    by blast
qed

theorem isDiagonal_spec_witness:
  "isDiagonal [[Fin 2, Fin 0], [Fin 0, Fin 3]]
   \<and> length ([Fin 1, Fin 2] # []) \<noteq> length [Fin 1, Fin 2]
   \<and> \<not> isDiagonal ([Fin 1, Fin 2] # [])"
proof -
  let ?M = "[[Fin 2, Fin 0], [Fin 0, Fin 3]]"
  have rect: "\<forall>row \<in> set ?M. length row = length (hd ?M)"
    by simp
  have cells: "?M \<noteq> [] \<and> length ?M = length (hd ?M) \<and>
      (\<forall>i<length ?M. \<forall>j<length (?M ! i). i \<noteq> j \<longrightarrow> ?M ! i ! j = Fin 0)"
    by (simp add: less_Suc_eq)
  have ns: "length ([Fin 1, Fin 2] # []) \<noteq> length [Fin 1, Fin 2]"
    by simp
  from isDiagonal_spec [of ?M "Fin 0" "[Fin 1, Fin 2]" "[]"] rect cells ns
  show ?thesis by blast
qed

section \<open>Rounding\<close>



lemma round_half_even_of_int [simp]: "round_half_even (of_int m) = m"
  by (simp add: round_half_even_def)




section \<open>The statistics\<close>

lemma foldl_append_rows: "foldl (\<lambda>allValues row. allValues @ row) acc m = acc @ concat m"
  by (induction m arbitrary: acc) simp_all

lemma collectValues_concat: "collectValues a b = concat a @ concat b"
  by (simp add: collectValues_def foldl_append_rows)





lemma calculateMatrixStatistics_nonempty:
  "concat a @ concat b \<noteq> [] \<Longrightarrow>
   calculateMatrixStatistics a b =
     Inr \<lparr> maxValue = Math_max (concat a @ concat b),
           minValue = Math_min (concat a @ concat b),
           average = js_div_length (foldl js_add (Fin 0) (concat a @ concat b)) (length (concat a @ concat b)),
           totalSum = foldl js_add (Fin 0) (concat a @ concat b),
           isDiagonalOriginal = isDiagonal a, isDiagonalRotated = isDiagonal b \<rparr>"
  by (simp add: calculateMatrixStatistics_def collectValues_concat computeStatistics_def Let_def)













section \<open>The validation\<close>

lemma strictEquals_lengths [simp]:
  "strictEquals (JNum (Fin (of_nat a))) (JNum (Fin (of_nat b))) \<longleftrightarrow> a = b"
  by simp

lemma checkRows_arrays:
  "checkRows (JNum (Fin (of_nat n))) (map JArr rs) =
     (case find (\<lambda>r. length r \<noteq> n \<or> \<not> list_all isNumber r) rs of
        None \<Rightarrow> Inr ()
      | Some r \<Rightarrow> if length r \<noteq> n then Inl notRectangular else Inl nonNumeric)"
  by (induction rs) auto

lemma validateMatrix_arrays:
  "validateMatrix (JArr (map JArr (r0 # rest))) =
     checkRows (JNum (Fin (of_nat (length r0)))) (map JArr (r0 # rest))"
  by (simp add: validateMatrix_def)


lemma checkRows_ok_iff:
  "checkRows (JNum (Fin (of_nat n))) rows = Inr () \<longleftrightarrow>
     (\<forall>row \<in> set rows. \<exists>cells. row = JArr cells \<and> length cells = n \<and> list_all isNumber cells)"
proof (induction rows)
  case Nil
  then show ?case by simp
next
  case (Cons row rows)
  show ?case
  proof (cases row)
    case (JArr cells)
    then show ?thesis using Cons.IH by auto
  next
    case (JStr s)
    then show ?thesis by simp
  next
    case (JObj ps)
    then show ?thesis by (simp split: option.splits)
  qed simp_all
qed

lemma all_arrays_map:
  "(\<forall>row \<in> set rows. \<exists>cells. row = JArr cells \<and> P cells) \<longleftrightarrow>
     (\<exists>rs. rows = map JArr rs \<and> (\<forall>r \<in> set rs. P r))"
proof (induction rows)
  case Nil
  then show ?case by simp
next
  case (Cons row rows)
  show ?case
  proof
    assume h: "\<forall>row \<in> set (row # rows). \<exists>cells. row = JArr cells \<and> P cells"
    then obtain cells where c: "row = JArr cells" "P cells" by auto
    from h Cons.IH obtain rs where rs: "rows = map JArr rs" "\<forall>r \<in> set rs. P r" by auto
    have "row # rows = map JArr (cells # rs) \<and> (\<forall>r \<in> set (cells # rs). P r)"
      using c rs by simp
    then show "\<exists>rs. row # rows = map JArr rs \<and> (\<forall>r \<in> set rs. P r)" by (rule exI)
  next
    assume "\<exists>rs. row # rows = map JArr rs \<and> (\<forall>r \<in> set rs. P r)"
    then show "\<forall>row \<in> set (row # rows). \<exists>cells. row = JArr cells \<and> P cells" by auto
  qed
qed

lemma validateMatrix_ok_iff:
  "validateMatrix m = Inr () \<longleftrightarrow>
     (\<exists>r0 rest. m = JArr (map JArr (r0 # rest)) \<and>
        (\<forall>r \<in> set rest. length r = length r0) \<and>
        (\<forall>r \<in> set (r0 # rest). list_all isNumber r))"
proof
  assume ok: "validateMatrix m = Inr ()"
  have t: "truthy m" using ok by (auto simp: validateMatrix_def split: if_splits)
  show "\<exists>r0 rest. m = JArr (map JArr (r0 # rest)) \<and>
        (\<forall>r \<in> set rest. length r = length r0) \<and>
        (\<forall>r \<in> set (r0 # rest). list_all isNumber r)"
  proof (cases m)
    case (JArr rows)
    show ?thesis
    proof (cases rows)
      case Nil
      then show ?thesis using ok JArr by (simp add: validateMatrix_def)
    next
      case (Cons row rows')
      show ?thesis
      proof (cases row)
        case r: (JArr cells)
        have "checkRows (JNum (Fin (of_nat (length cells)))) rows = Inr ()"
          using ok JArr Cons r by (simp add: validateMatrix_def)
        then have "\<forall>row \<in> set rows. \<exists>c. row = JArr c \<and> (length c = length cells \<and> list_all isNumber c)"
          unfolding checkRows_ok_iff by simp
        then obtain rs where rs: "rows = map JArr rs"
            "\<forall>r \<in> set rs. length r = length cells \<and> list_all isNumber r"
          unfolding all_arrays_map by blast
        from rs(1) Cons r obtain rest where rest: "rs = cells # rest"
          by (cases rs) auto
        show ?thesis using JArr rs rest by auto
      qed (use ok JArr Cons in \<open>simp_all add: validateMatrix_def\<close>)
    qed
  next
    case (JStr s)
    then show ?thesis using ok by (cases s) (simp_all add: validateMatrix_def)
  next
    case (JObj ps)
    then show ?thesis using ok
      by (simp add: validateMatrix_def split: if_splits sum.splits)
  qed (use ok in \<open>simp_all add: validateMatrix_def split: if_splits\<close>)
next
  assume "\<exists>r0 rest. m = JArr (map JArr (r0 # rest)) \<and>
        (\<forall>r \<in> set rest. length r = length r0) \<and>
        (\<forall>r \<in> set (r0 # rest). list_all isNumber r)"
  then obtain r0 rest where m: "m = JArr (map JArr (r0 # rest))"
    and len: "\<forall>r \<in> set rest. length r = length r0"
    and num: "\<forall>r \<in> set (r0 # rest). list_all isNumber r"
    by blast
  have "find (\<lambda>r. length r \<noteq> length r0 \<or> \<not> list_all isNumber r) (r0 # rest) = None"
    using len num by (auto simp: find_None_iff)
  then show "validateMatrix m = Inr ()"
    unfolding m validateMatrix_arrays checkRows_arrays by simp
qed


lemma validateMatrix_find:
  "validateMatrix (JArr (map JArr (r0 # rest))) =
     (case find (\<lambda>r. length r \<noteq> length r0 \<or> \<not> list_all isNumber r) (r0 # rest) of
        None \<Rightarrow> Inr ()
      | Some r \<Rightarrow> if length r \<noteq> length r0 then Inl notRectangular else Inl nonNumeric)"
  unfolding validateMatrix_arrays checkRows_arrays ..


lemma find_defect:
  "\<exists>x \<in> set xs. P x \<Longrightarrow> \<exists>r. find P xs = Some r \<and> r \<in> set xs \<and> P r"
  by (induction xs) auto

lemma validateMatrix_nonNumeric:
  assumes len: "\<forall>r \<in> set rest. length r = length r0"
    and bad: "\<exists>r \<in> set (r0 # rest). \<not> list_all isNumber r"
  shows "validateMatrix (JArr (map JArr (r0 # rest))) = Inl nonNumeric"
proof -
  let ?P = "\<lambda>r. length r \<noteq> length r0 \<or> \<not> list_all isNumber r"
  from bad have "\<exists>r \<in> set (r0 # rest). ?P r" by blast
  then obtain r where f: "find ?P (r0 # rest) = Some r" and m: "r \<in> set (r0 # rest)"
    using find_defect [of "r0 # rest" ?P] by blast
  have "length r = length r0" using len m by auto
  then show ?thesis unfolding validateMatrix_find f by simp
qed

lemma isNumber_iff: "isNumber v \<longleftrightarrow> (\<exists>n. v = JNum n)"
  by (cases v) simp_all

lemma execute_invalid:
  "validateMatrix (matrix req) = Inl e \<Longrightarrow> execute gw req = (Inl e, [])"
  by (simp add: execute_def Let_def)




text \<open>
  C7 (as amended). Validation succeeds exactly on the arrays that have a first row, whose
  rows are arrays of one length, and whose cells all have the type number: NaN and the
  infinities are numbers for \<open>typeof\<close> and are accepted. An array of equal-length rows with
  a cell that is not of type number fails with the "non-numeric" error.
\<close>

theorem validation_numeric:
  "(validateMatrix m = Inr () \<longleftrightarrow>
      (\<exists>r0 rest. m = JArr (map JArr (r0 # rest)) \<and>
         (\<forall>r \<in> set rest. length r = length r0) \<and>
         (\<forall>r \<in> set (r0 # rest). list_all isNumber r)))
   \<and> ((\<forall>r \<in> set rest'. length r = length r0') \<and> (\<exists>r \<in> set (r0' # rest'). \<not> list_all isNumber r)
        \<longrightarrow> validateMatrix (JArr (map JArr (r0' # rest'))) = Inl nonNumeric)
   \<and> (isNumber v \<longleftrightarrow> (\<exists>n. v = JNum n))"
proof (intro conjI)
  show "validateMatrix m = Inr () \<longleftrightarrow>
      (\<exists>r0 rest. m = JArr (map JArr (r0 # rest)) \<and>
         (\<forall>r \<in> set rest. length r = length r0) \<and>
         (\<forall>r \<in> set (r0 # rest). list_all isNumber r))"
    by (rule validateMatrix_ok_iff)
  show "(\<forall>r \<in> set rest'. length r = length r0') \<and> (\<exists>r \<in> set (r0' # rest'). \<not> list_all isNumber r)
        \<longrightarrow> validateMatrix (JArr (map JArr (r0' # rest'))) = Inl nonNumeric"
  proof
    assume h: "(\<forall>r \<in> set rest'. length r = length r0') \<and> (\<exists>r \<in> set (r0' # rest'). \<not> list_all isNumber r)"
    from h have a: "\<forall>r \<in> set rest'. length r = length r0'" by (rule conjunct1)
    from h have b: "\<exists>r \<in> set (r0' # rest'). \<not> list_all isNumber r" by (rule conjunct2)
    show "validateMatrix (JArr (map JArr (r0' # rest'))) = Inl nonNumeric"
      using a b by (rule validateMatrix_nonNumeric)
  qed
  show "isNumber v \<longleftrightarrow> (\<exists>n. v = JNum n)"
    by (rule isNumber_iff)
qed

theorem validation_numeric_witness:
  "validateMatrix (JArr (map JArr ([JNum NaN, JNum (Fin 1)] # [[JNum PosInf, JNum NegInf]]))) = Inr ()
   \<and> validateMatrix (JArr (map JArr ([JNum (Fin 1), JNum (Fin 2)] # [[JNum (Fin 3), JStr ''a'']]))) = Inl nonNumeric
   \<and> isNumber (JNum NaN)"
proof -
  let ?r0 = "[JNum NaN, JNum (Fin 1)]" and ?rest = "[[JNum PosInf, JNum NegInf]]"
  let ?s0 = "[JNum (Fin 1), JNum (Fin 2)]" and ?srest = "[[JNum (Fin 3), JStr ''a'']]"
  note inst = validation_numeric [of "JArr (map JArr (?r0 # ?rest))" ?srest ?s0 "JNum NaN"]
  have ok: "\<exists>r0 rest. JArr (map JArr (?r0 # ?rest)) = JArr (map JArr (r0 # rest)) \<and>
         (\<forall>r \<in> set rest. length r = length r0) \<and>
         (\<forall>r \<in> set (r0 # rest). list_all isNumber r)"
    by (rule exI [of _ ?r0], rule exI [of _ ?rest]) simp
  have bad: "(\<forall>r \<in> set ?srest. length r = length ?s0) \<and> (\<exists>r \<in> set (?s0 # ?srest). \<not> list_all isNumber r)"
    by simp
  have n: "\<exists>n. JNum NaN = JNum n" by (rule exI [of _ NaN]) (rule refl)
  have c1: "validateMatrix (JArr (map JArr (?r0 # ?rest))) = Inr ()"
    using inst [THEN conjunct1] ok by (rule iffD2)
  have c2: "validateMatrix (JArr (map JArr (?s0 # ?srest))) = Inl nonNumeric"
    using inst [THEN conjunct2, THEN conjunct1] bad by (rule mp)
  have c3: "isNumber (JNum NaN)"
    using inst [THEN conjunct2, THEN conjunct2] n by (rule iffD2)
  show ?thesis using c1 c2 c3 by (intro conjI)
qed

theorem validation_numeric_counterexample:
  "validateMatrix (JArr [JArr [JNum NaN, JNum PosInf]]) = Inr ()"
  by (simp add: validateMatrix_def)

text \<open>
  C5. The inputs \<open>[[1,2], null, [3]]\<close> (a row of another length than the first) and
  \<open>[[1], null, ['x']]\<close> (a cell that is not a number) fail the validation: the loop
  reads \<open>row.length\<close> of the \<open>null\<close> row first, so \<open>execute\<close> throws a \<open>TypeError\<close> and
  not an \<open>InvalidMatrixError\<close>. The gateway has not been called.
\<close>

theorem null_row_throws_TypeError:
  "execute gw \<lparr> matrix = JArr [JArr [JNum (Fin 1), JNum (Fin 2)], JNull, JArr [JNum (Fin 3)]] \<rparr>
     = (Inl (TypeError ''length of null''), [])
   \<and> execute gw \<lparr> matrix = JArr [JArr [JNum (Fin 1)], JNull, JArr [JStr ''x'']] \<rparr>
     = (Inl (TypeError ''length of null''), [])"
  by (simp add: execute_def validateMatrix_def)

section \<open>Failures of the gateway\<close>

lemma GoApiError_fields:
  "statusCode (GoApiError m d s) = (case s of None \<Rightarrow> 500 | Some c \<Rightarrow> c)"
  "errorCode (GoApiError m d s) = ''GO_API_ERROR''"
  "details (GoApiError m d s) = d"
  by (simp_all add: GoApiError_def AppError_def)

lemma InvalidMatrixError_fields':
  "message (InvalidMatrixError d) = ''Invalid matrix provided.''"
  "statusCode (InvalidMatrixError d) = 400"
  "errorCode (InvalidMatrixError d) = ''INVALID_MATRIX''"
  "details (InvalidMatrixError d) = d"
  by (simp_all add: InvalidMatrixError_def AppError_def)

lemma execute_gateway_failure:
  "validateMatrix (matrix req) = Inr () \<Longrightarrow> gw (matrix req) = Inl t \<Longrightarrow>
   execute gw req = (Inl (translateGatewayError t), [matrix req])"
  by (simp add: execute_def Let_def)

lemma execute_gateway_success:
  "validateMatrix (matrix req) = Inr () \<Longrightarrow> gw (matrix req) = Inr g \<Longrightarrow>
   execute gw req =
     (case calculateMatrixStatistics (original_matrix g) (rotated_matrix g) of
        Inl e \<Rightarrow> (Inl e, [matrix req])
      | Inr stats \<Rightarrow>
          (Inr \<lparr> originalMatrix = original_matrix g, rotatedMatrix = rotated_matrix g,
                 qrFactorization = qr_factorization g, statistics = stats \<rparr>, [matrix req]))"
  by (simp add: execute_def Let_def)

lemma translate_no_response:
  "thrown_response t = None \<Longrightarrow>
   translateGatewayError t = AppErr (GoApiError
     (Some (''Fallo al conectar o error desconocido de la API de Go: '' @ thrown_message t))
     (Some ''NETWORK_ERROR'') None)"
  by (simp add: translateGatewayError_def)

lemma translate_dimension:
  "thrown_response t = Some resp \<Longrightarrow> status resp = 400 \<Longrightarrow> data resp = Some b \<Longrightarrow>
   body_error b = Some ''dimensiones_de_matriz_invalidas'' \<Longrightarrow>
   translateGatewayError t = AppErr (InvalidMatrixError (Some (orElse (body_details b) dimensionsFallback)))"
  by (simp add: translateGatewayError_def)

lemma translate_cases:
  "(\<exists>txt. translateGatewayError t = AppErr (InvalidMatrixError (Some txt)))
   \<or> (\<exists>m d s. translateGatewayError t = AppErr (GoApiError m d s))"
proof (cases "thrown_response t")
  case None
  then show ?thesis using translate_no_response [of t] by blast
next
  case (Some resp)
  show ?thesis
  proof (cases "data resp")
    case None
    then show ?thesis using Some
      by (cases "status resp = 0") (simp_all add: translateGatewayError_def; blast?)+
  next
    case b: (Some b)
    then show ?thesis using Some
      by (cases "status resp = 0") (simp_all add: translateGatewayError_def; blast?)+
  qed
qed

lemma interceptor_no_response:
  "response err = None \<Longrightarrow> request err \<Longrightarrow>
   interceptor err = AppErr (GoApiError
     (Some ''No response received from Go API. It might be down or unreachable.'')
     (Some ''NETWORK_ERROR'') None)"
  by (simp add: interceptor_def)

text \<open>
  C1. The gateway fails with status 400 and the error code
  \<open>dimensiones_de_matriz_invalidas\<close>, the body's details being "La matriz debe ser
  cuadrada." (the failure of the unit test, through a substitute gateway and through the
  HTTP client). \<open>execute\<close> throws an \<open>InvalidMatrixError\<close> after one call of the gateway;
  its message is "Invalid matrix provided." and the backend's text is its \<open>details\<close>.
\<close>

theorem dimension_error_message:
  "execute
     (\<lambda>m. Inl (AxiosErr \<lparr> axios_message = ''Request failed with status code 400'',
        response = Some \<lparr> status = 400,
          data = Some \<lparr> body_data = None, body_message = None,
            body_error = Some ''dimensiones_de_matriz_invalidas'',
            body_details = Some ''La matriz debe ser cuadrada.'' \<rparr> \<rparr>,
        request = True \<rparr>))
     \<lparr> matrix = JArr [JArr [JNum (Fin 1), JNum (Fin 2), JNum (Fin 3)]] \<rparr>
   = (Inl (AppErr \<lparr> name = ''AppError'', message = ''Invalid matrix provided.'', statusCode = 400,
        errorCode = ''INVALID_MATRIX'', details = Some ''La matriz debe ser cuadrada.'' \<rparr>),
      [JArr [JArr [JNum (Fin 1), JNum (Fin 2), JNum (Fin 3)]]])
   \<and> execute
     (processMatrix (\<lambda>m. Inl \<lparr> axios_message = ''Request failed with status code 400'',
        response = Some \<lparr> status = 400,
          data = Some \<lparr> body_data = None, body_message = None,
            body_error = Some ''dimensiones_de_matriz_invalidas'',
            body_details = Some ''La matriz debe ser cuadrada.'' \<rparr> \<rparr>,
        request = True \<rparr>))
     \<lparr> matrix = JArr [JArr [JNum (Fin 1), JNum (Fin 2), JNum (Fin 3)]] \<rparr>
   = (Inl (AppErr \<lparr> name = ''AppError'', message = ''Invalid matrix provided.'', statusCode = 400,
        errorCode = ''INVALID_MATRIX'', details = Some ''La matriz debe ser cuadrada.'' \<rparr>),
      [JArr [JArr [JNum (Fin 1), JNum (Fin 2), JNum (Fin 3)]]])"
  by (simp add: execute_def validateMatrix_def processMatrix_def interceptor_def
        translateGatewayError_def InvalidMatrixError_def AppError_def)

text \<open>
  C9. The transport gets no response (connection refused). The client rejects with a
  \<open>GoApiError\<close> and \<open>execute\<close> throws a new \<open>GoApiError\<close>: its \<open>errorCode\<close> is
  \<open>GO_API_ERROR\<close>, its status 500, and the string \<open>NETWORK_ERROR\<close> is its \<open>details\<close>. The
  same holds for the substitute gateway of the unit test, which rejects with a plain
  \<open>Error\<close>.
\<close>

theorem network_error_code:
  "execute
     (processMatrix (\<lambda>m. Inl \<lparr> axios_message = ''connect ECONNREFUSED'',
        response = None, request = True \<rparr>))
     \<lparr> matrix = JArr [JArr [JNum (Fin 1)]] \<rparr>
   = (Inl (AppErr \<lparr> name = ''AppError'',
        message = ''Fallo al conectar o error desconocido de la API de Go: No response received from Go API. It might be down or unreachable.'',
        statusCode = 500, errorCode = ''GO_API_ERROR'', details = Some ''NETWORK_ERROR'' \<rparr>),
      [JArr [JArr [JNum (Fin 1)]]])
   \<and> execute (\<lambda>m. Inl (PlainError ''Network Error'')) \<lparr> matrix = JArr [JArr [JNum (Fin 1)]] \<rparr>
   = (Inl (AppErr \<lparr> name = ''AppError'',
        message = ''Fallo al conectar o error desconocido de la API de Go: Network Error'',
        statusCode = 500, errorCode = ''GO_API_ERROR'', details = Some ''NETWORK_ERROR'' \<rparr>),
      [JArr [JArr [JNum (Fin 1)]]])"
  by (simp add: execute_def validateMatrix_def processMatrix_def interceptor_def
        translateGatewayError_def GoApiError_def AppError_def)


section \<open>The guards of the statistics\<close>

lemma calculateMatrixStatistics_empty_iff:
  "calculateMatrixStatistics a b = Inl noNumericValues \<longleftrightarrow> concat a @ concat b = []"
  by (simp add: calculateMatrixStatistics_def collectValues_concat Let_def)

lemma calculateMatrixStatistics_thrown:
  "calculateMatrixStatistics a b = Inl t \<Longrightarrow> t = noNumericValues"
  by (simp add: calculateMatrixStatistics_def Let_def split: if_splits)

lemma CalculateMatrixStatsUseCase_execute_guard:
  "CalculateMatrixStatsUseCase_execute g =
     (if original_matrix g = [] \<or> rotated_matrix g = [] then Inl emptyOrInvalidMatrices
      else calculateMatrixStatistics (original_matrix g) (rotated_matrix g))"
  by (simp add: CalculateMatrixStatsUseCase_execute_def calculateMatrixStatistics_def Let_def)

lemma execute_empty_result:
  assumes "validateMatrix (matrix req) = Inr ()" and "gw (matrix req) = Inr g"
    and "concat (original_matrix g) @ concat (rotated_matrix g) = []"
  shows "execute gw req = (Inl noNumericValues, [matrix req])"
proof -
  have "calculateMatrixStatistics (original_matrix g) (rotated_matrix g) = Inl noNumericValues"
    using assms(3) calculateMatrixStatistics_empty_iff by blast
  then show ?thesis
    using execute_gateway_success [of req gw g] assms(1,2) by simp
qed

text \<open>
  C8 (as amended). \<open>calculateMatrixStatistics\<close>, the computation that \<open>execute\<close> uses, fails
  with the \<open>InvalidMatrixError\<close> "No numeric values found ..." exactly when the two
  matrices have no cell at all, and returns statistics otherwise.
  \<open>CalculateMatrixStatsUseCase.execute\<close> first fails with the \<open>InvalidMatrixError\<close> "Matrices
  provided are empty or invalid ..." when one of the two matrices has no row, and
  otherwise behaves the same. When the gateway returns two matrices without any cell,
  \<open>execute\<close> throws the "No numeric values found ..." error as it is, after its one call
  of the gateway.
\<close>

theorem empty_statistics:
  "(calculateMatrixStatistics a b = Inl noNumericValues \<longleftrightarrow> concat a @ concat b = [])
   \<and> (concat a @ concat b \<noteq> [] \<longrightarrow> (\<exists>s. calculateMatrixStatistics a b = Inr s))
   \<and> CalculateMatrixStatsUseCase_execute g =
       (if original_matrix g = [] \<or> rotated_matrix g = [] then Inl emptyOrInvalidMatrices
        else calculateMatrixStatistics (original_matrix g) (rotated_matrix g))
   \<and> (validateMatrix (matrix req) = Inr () \<and> gw (matrix req) = Inr g'
        \<and> concat (original_matrix g') @ concat (rotated_matrix g') = []
      \<longrightarrow> execute gw req = (Inl noNumericValues, [matrix req]))
   \<and> noNumericValues = AppErr (InvalidMatrixError
        (Some ''No numeric values found in matrices to calculate statistics.''))
   \<and> emptyOrInvalidMatrices = AppErr (InvalidMatrixError
        (Some ''Matrices provided are empty or invalid for statistics calculation.''))"
proof (intro conjI impI)
  show "calculateMatrixStatistics a b = Inl noNumericValues \<longleftrightarrow> concat a @ concat b = []"
    by (rule calculateMatrixStatistics_empty_iff)
  show "\<exists>s. calculateMatrixStatistics a b = Inr s" if "concat a @ concat b \<noteq> []"
    using calculateMatrixStatistics_nonempty [OF that] by blast
  show "CalculateMatrixStatsUseCase_execute g =
       (if original_matrix g = [] \<or> rotated_matrix g = [] then Inl emptyOrInvalidMatrices
        else calculateMatrixStatistics (original_matrix g) (rotated_matrix g))"
    by (rule CalculateMatrixStatsUseCase_execute_guard)
  show "execute gw req = (Inl noNumericValues, [matrix req])"
    if "validateMatrix (matrix req) = Inr () \<and> gw (matrix req) = Inr g'
        \<and> concat (original_matrix g') @ concat (rotated_matrix g') = []"
    using that execute_empty_result [of req gw g'] by blast
  show "noNumericValues = AppErr (InvalidMatrixError
        (Some ''No numeric values found in matrices to calculate statistics.''))"
    by (rule noNumericValues_def)
  show "emptyOrInvalidMatrices = AppErr (InvalidMatrixError
        (Some ''Matrices provided are empty or invalid for statistics calculation.''))"
    by (rule emptyOrInvalidMatrices_def)
qed

theorem empty_statistics_witness:
  "concat [[Fin 2]] @ concat [[]] \<noteq> []
   \<and> (\<exists>s. calculateMatrixStatistics [[Fin 2]] [[]] = Inr s)
   \<and> validateMatrix (matrix \<lparr> matrix = JArr [JArr [JNum (Fin 1)]] \<rparr>) = Inr ()
   \<and> concat (original_matrix \<lparr> original_matrix = [[]], rotated_matrix = [[]],
                qr_factorization = \<lparr> Q = [], R = [] \<rparr> \<rparr>)
       @ concat (rotated_matrix \<lparr> original_matrix = [[]], rotated_matrix = [[]],
                qr_factorization = \<lparr> Q = [], R = [] \<rparr> \<rparr>) = []
   \<and> execute
        (\<lambda>m. Inr \<lparr> original_matrix = [[]], rotated_matrix = [[]],
                    qr_factorization = \<lparr> Q = [], R = [] \<rparr> \<rparr>)
        \<lparr> matrix = JArr [JArr [JNum (Fin 1)]] \<rparr>
      = (Inl noNumericValues, [JArr [JArr [JNum (Fin 1)]]])"
proof -
  let ?req = "\<lparr> matrix = JArr [JArr [JNum (Fin 1)]] \<rparr>"
  let ?g = "\<lparr> original_matrix = [[]], rotated_matrix = [[]],
                    qr_factorization = \<lparr> Q = [], R = [] \<rparr> \<rparr>"
  let ?gw = "\<lambda>m :: jsval. (Inr ?g :: thrown + GoApiResponseData)"
  note inst = empty_statistics [of "[[Fin 2]]" "[[]]" ?g ?req ?gw ?g]
  have ne: "concat [[Fin 2]] @ concat [[]] \<noteq> []" by simp
  have v: "validateMatrix (matrix ?req) = Inr ()" by (simp add: validateMatrix_def)
  have e: "concat (original_matrix ?g) @ concat (rotated_matrix ?g) = []" by simp
  have h: "validateMatrix (matrix ?req) = Inr () \<and> ?gw (matrix ?req) = Inr ?g
        \<and> concat (original_matrix ?g) @ concat (rotated_matrix ?g) = []"
    using v e by simp
  have c1: "\<exists>s. calculateMatrixStatistics [[Fin 2]] [[]] = Inr s"
    using inst [THEN conjunct2, THEN conjunct1] ne by (rule mp)
  have c2: "execute ?gw ?req = (Inl noNumericValues, [matrix ?req])"
    using inst [THEN conjunct2, THEN conjunct2, THEN conjunct2, THEN conjunct1] h by (rule mp)
  have m: "matrix ?req = JArr [JArr [JNum (Fin 1)]]" by simp
  show ?thesis using ne c1 v e c2 unfolding m by (intro conjI)
qed

theorem empty_statistics_counterexample:
  "concat [[Fin 1]] @ concat [] \<noteq> []
   \<and> CalculateMatrixStatsUseCase_execute
        \<lparr> original_matrix = [[Fin 1]], rotated_matrix = [], qr_factorization = \<lparr> Q = [], R = [] \<rparr> \<rparr>
      = Inl emptyOrInvalidMatrices"
  by (simp add: CalculateMatrixStatsUseCase_execute_def)

section \<open>What is thrown\<close>

lemma get_length_thrown: "get_length v = Inl t \<Longrightarrow> \<exists>s. t = TypeError s"
  by (cases v) auto

lemma get_first_thrown: "get_first v = Inl t \<Longrightarrow> \<exists>s. t = TypeError s"
  by (cases v) auto

lemma iterate_thrown: "iterate v = Inl t \<Longrightarrow> \<exists>s. t = TypeError s"
  by (cases v) auto

lemma every_isNumber_thrown: "every_isNumber v = Inl t \<Longrightarrow> \<exists>s. t = TypeError s"
  by (cases v) auto

lemma checkRows_thrown:
  "checkRows n rows = Inl t \<Longrightarrow> t = notRectangular \<or> t = nonNumeric \<or> (\<exists>s. t = TypeError s)"
proof (induction rows)
  case Nil
  then show ?case by simp
next
  case (Cons row rows)
  show ?case
  proof (cases "get_length row")
    case (Inl e)
    then show ?thesis using Cons.prems get_length_thrown [of row e] by simp
  next
    case len: (Inr len)
    show ?thesis
    proof (cases "strictEquals len n")
      case False
      then show ?thesis using Cons.prems len by simp
    next
      case eq: True
      show ?thesis
      proof (cases "every_isNumber row")
        case (Inl e)
        then show ?thesis using Cons.prems len eq every_isNumber_thrown [of row e] by simp
      next
        case (Inr ok)
        then show ?thesis using Cons.prems Cons.IH len eq by (cases ok) simp_all
      qed
    qed
  qed
qed

lemma validateMatrix_thrown:
  assumes "validateMatrix m = Inl t"
  shows "t = emptyOrMalformed \<or> t = notRectangular \<or> t = nonNumeric \<or> (\<exists>s. t = TypeError s)"
proof (cases "truthy m")
  case False
  then show ?thesis using assms by (simp add: validateMatrix_def)
next
  case tr: True
  show ?thesis
  proof (cases "get_length m")
    case (Inl e)
    then show ?thesis using assms tr get_length_thrown [of m e] by (simp add: validateMatrix_def)
  next
    case len: (Inr len)
    show ?thesis
    proof (cases "strictEquals len (JNum (Fin 0))")
      case True
      then show ?thesis using assms tr len by (simp add: validateMatrix_def)
    next
      case nz: False
      show ?thesis
      proof (cases "get_first m")
        case (Inl e)
        then show ?thesis using assms tr len nz get_first_thrown [of m e]
          by (simp add: validateMatrix_def)
      next
        case first: (Inr first)
        show ?thesis
        proof (cases "isArray first")
          case False
          then show ?thesis using assms tr len nz first by (simp add: validateMatrix_def)
        next
          case arr: True
          show ?thesis
          proof (cases "get_length first")
            case (Inl e)
            then show ?thesis using assms tr len nz first arr get_length_thrown [of first e]
              by (simp add: validateMatrix_def)
          next
            case nc: (Inr numCols)
            show ?thesis
            proof (cases "iterate m")
              case (Inl e)
              then show ?thesis using assms tr len nz first arr nc iterate_thrown [of m e]
                by (simp add: validateMatrix_def)
            next
              case (Inr rows)
              then have "checkRows numCols rows = Inl t"
                using assms tr len nz first arr nc by (simp add: validateMatrix_def)
              then show ?thesis using checkRows_thrown by blast
            qed
          qed
        qed
      qed
    qed
  qed
qed

lemma validation_errors_are_InvalidMatrixError:
  "emptyOrMalformed = AppErr (InvalidMatrixError (Some ''Input matrix is empty or malformed.''))"
  "notRectangular = AppErr (InvalidMatrixError
     (Some ''Matrix must be rectangular (all rows must have the same number of columns).''))"
  "nonNumeric = AppErr (InvalidMatrixError (Some ''Matrix must contain only arrays of numbers.''))"
  by (rule emptyOrMalformed_def notRectangular_def nonNumeric_def)+

lemma execute_thrown:
  assumes "execute gw req = (Inl t, calls)"
  shows "(\<exists>txt. t = AppErr (InvalidMatrixError (Some txt)))
       \<or> (\<exists>m d s. t = AppErr (GoApiError m d s))
       \<or> (\<exists>s. t = TypeError s)"
proof (cases "validateMatrix (matrix req)")
  case (Inl e)
  then have "t = e" using assms execute_invalid [of req e gw] by simp
  then show ?thesis
    using validateMatrix_thrown [OF Inl] validation_errors_are_InvalidMatrixError by metis
next
  case v: (Inr u)
  show ?thesis
  proof (cases "gw (matrix req)")
    case (Inl g)
    then have "t = translateGatewayError g"
      using assms v execute_gateway_failure [of req gw g] by simp
    then show ?thesis using translate_cases [of g] by blast
  next
    case (Inr g)
    show ?thesis
    proof (cases "calculateMatrixStatistics (original_matrix g) (rotated_matrix g)")
      case (Inl e)
      then have "t = e" using assms v Inr execute_gateway_success [of req gw g] by simp
      then have "t = noNumericValues" using calculateMatrixStatistics_thrown [OF Inl] by simp
      then show ?thesis unfolding noNumericValues_def by blast
    next
      case (Inr stats)
      then show ?thesis using assms v \<open>gw (matrix req) = Inr g\<close> execute_gateway_success [of req gw g]
        by simp
    qed
  qed
qed

lemma CalculateMatrixStatsUseCase_execute_thrown:
  "CalculateMatrixStatsUseCase_execute g = Inl t \<Longrightarrow> t = emptyOrInvalidMatrices \<or> t = noNumericValues"
  unfolding CalculateMatrixStatsUseCase_execute_guard
  using calculateMatrixStatistics_thrown by (auto split: if_splits)

text \<open>
  C10. An \<open>InvalidMatrixError\<close> has the message "Invalid matrix provided.", the status 400
  and the code \<open>INVALID_MATRIX\<close>, and keeps the constructor's argument as its \<open>details\<close>.
  Everything \<open>execute\<close> throws is an \<open>InvalidMatrixError\<close> built with a text, a
  \<open>GoApiError\<close> (whose code is another) or a \<open>TypeError\<close> of the runtime. The texts are: the
  three of the validation, the backend's details (or the fallback) for a dimension
  failure, and those of the two guards of the statistics.
\<close>

theorem InvalidMatrixError_fixed_message:
  "message (InvalidMatrixError d) = ''Invalid matrix provided.''
   \<and> statusCode (InvalidMatrixError d) = 400
   \<and> errorCode (InvalidMatrixError d) = ''INVALID_MATRIX''
   \<and> details (InvalidMatrixError d) = d
   \<and> (execute gw req = (Inl t, calls) \<longrightarrow>
        (\<exists>txt. t = AppErr (InvalidMatrixError (Some txt)))
        \<or> (\<exists>m d s. t = AppErr (GoApiError m d s))
        \<or> (\<exists>s. t = TypeError s))
   \<and> errorCode (GoApiError m' d' s') \<noteq> ''INVALID_MATRIX''
   \<and> (validateMatrix v = Inl (AppErr e) \<longrightarrow>
        e = InvalidMatrixError (Some ''Input matrix is empty or malformed.'')
        \<or> e = InvalidMatrixError
              (Some ''Matrix must be rectangular (all rows must have the same number of columns).'')
        \<or> e = InvalidMatrixError (Some ''Matrix must contain only arrays of numbers.''))
   \<and> (thrown_response g = Some resp \<and> status resp = 400 \<and> data resp = Some b
        \<and> body_error b = Some ''dimensiones_de_matriz_invalidas'' \<longrightarrow>
        translateGatewayError g =
          AppErr (InvalidMatrixError (Some (orElse (body_details b) dimensionsFallback))))
   \<and> (calculateMatrixStatistics a1 a2 = Inl t1 \<longrightarrow>
        t1 = AppErr (InvalidMatrixError
               (Some ''No numeric values found in matrices to calculate statistics.'')))
   \<and> (CalculateMatrixStatsUseCase_execute g2 = Inl t2 \<longrightarrow>
        t2 = AppErr (InvalidMatrixError
               (Some ''Matrices provided are empty or invalid for statistics calculation.''))
        \<or> t2 = AppErr (InvalidMatrixError
               (Some ''No numeric values found in matrices to calculate statistics.'')))"
proof (intro conjI impI)
  show "message (InvalidMatrixError d) = ''Invalid matrix provided.''"
    by (rule InvalidMatrixError_fields')
  show "statusCode (InvalidMatrixError d) = 400"
    by (rule InvalidMatrixError_fields')
  show "errorCode (InvalidMatrixError d) = ''INVALID_MATRIX''"
    by (rule InvalidMatrixError_fields')
  show "details (InvalidMatrixError d) = d"
    by (rule InvalidMatrixError_fields')
  show "(\<exists>txt. t = AppErr (InvalidMatrixError (Some txt)))
        \<or> (\<exists>m d s. t = AppErr (GoApiError m d s))
        \<or> (\<exists>s. t = TypeError s)" if "execute gw req = (Inl t, calls)"
    using that by (rule execute_thrown)
  show "errorCode (GoApiError m' d' s') \<noteq> ''INVALID_MATRIX''"
    by (simp add: GoApiError_fields)
  show "e = InvalidMatrixError (Some ''Input matrix is empty or malformed.'')
        \<or> e = InvalidMatrixError
              (Some ''Matrix must be rectangular (all rows must have the same number of columns).'')
        \<or> e = InvalidMatrixError (Some ''Matrix must contain only arrays of numbers.'')"
    if "validateMatrix v = Inl (AppErr e)"
    using validateMatrix_thrown [OF that]
    unfolding emptyOrMalformed_def notRectangular_def nonNumeric_def by blast
  show "translateGatewayError g =
          AppErr (InvalidMatrixError (Some (orElse (body_details b) dimensionsFallback)))"
    if "thrown_response g = Some resp \<and> status resp = 400 \<and> data resp = Some b
        \<and> body_error b = Some ''dimensiones_de_matriz_invalidas''"
    using that translate_dimension [of g resp b] by blast
  show "t1 = AppErr (InvalidMatrixError
               (Some ''No numeric values found in matrices to calculate statistics.''))"
    if "calculateMatrixStatistics a1 a2 = Inl t1"
    using calculateMatrixStatistics_thrown [OF that] unfolding noNumericValues_def .
  show "t2 = AppErr (InvalidMatrixError
               (Some ''Matrices provided are empty or invalid for statistics calculation.''))
        \<or> t2 = AppErr (InvalidMatrixError
               (Some ''No numeric values found in matrices to calculate statistics.''))"
    if "CalculateMatrixStatsUseCase_execute g2 = Inl t2"
    using CalculateMatrixStatsUseCase_execute_thrown [OF that]
    unfolding noNumericValues_def emptyOrInvalidMatrices_def .
qed

theorem InvalidMatrixError_fixed_message_witness:
  "execute (\<lambda>m. Inl (PlainError ''down'')) \<lparr> matrix = JArr [] \<rparr> = (Inl emptyOrMalformed, [])
   \<and> ((\<exists>txt. emptyOrMalformed = AppErr (InvalidMatrixError (Some txt)))
        \<or> (\<exists>m d s. emptyOrMalformed = AppErr (GoApiError m d s))
        \<or> (\<exists>s. emptyOrMalformed = TypeError s))
   \<and> message (InvalidMatrixError (Some ''Input matrix is empty or malformed.'')) = ''Invalid matrix provided.''
   \<and> translateGatewayError (AxiosErr \<lparr> axios_message = ''Request failed with status code 400'',
        response = Some \<lparr> status = 400,
          data = Some \<lparr> body_data = None, body_message = None,
            body_error = Some ''dimensiones_de_matriz_invalidas'',
            body_details = Some ''La matriz debe ser cuadrada.'' \<rparr> \<rparr>,
        request = True \<rparr>)
      = AppErr (InvalidMatrixError (Some ''La matriz debe ser cuadrada.''))
   \<and> calculateMatrixStatistics [[]] [[]] = Inl (AppErr (InvalidMatrixError
        (Some ''No numeric values found in matrices to calculate statistics.'')))
   \<and> validateMatrix (JArr []) = Inl (AppErr (InvalidMatrixError (Some ''Input matrix is empty or malformed.'')))
   \<and> CalculateMatrixStatsUseCase_execute
        \<lparr> original_matrix = [], rotated_matrix = [], qr_factorization = \<lparr> Q = [], R = [] \<rparr> \<rparr>
      = Inl emptyOrInvalidMatrices
   \<and> (emptyOrInvalidMatrices = AppErr (InvalidMatrixError
               (Some ''Matrices provided are empty or invalid for statistics calculation.''))
        \<or> emptyOrInvalidMatrices = AppErr (InvalidMatrixError
               (Some ''No numeric values found in matrices to calculate statistics.'')))"
proof -
  let ?gw = "\<lambda>m :: jsval. (Inl (PlainError ''down'') :: thrown + GoApiResponseData)"
  let ?req = "\<lparr> matrix = JArr [] \<rparr>"
  let ?b = "\<lparr> body_data = None, body_message = None,
            body_error = Some ''dimensiones_de_matriz_invalidas'',
            body_details = Some ''La matriz debe ser cuadrada.'' \<rparr>"
  let ?resp = "\<lparr> status = 400, data = Some ?b \<rparr>"
  let ?g = "AxiosErr \<lparr> axios_message = ''Request failed with status code 400'',
        response = Some ?resp, request = True \<rparr>"
  note inst = InvalidMatrixError_fixed_message [of "Some ''Input matrix is empty or malformed.''"
      ?gw ?req emptyOrMalformed "[]" None None None "JArr []"
      "InvalidMatrixError (Some ''Input matrix is empty or malformed.'')"
      ?g ?resp ?b "[[]]" "[[]]" noNumericValues
      "\<lparr> original_matrix = [], rotated_matrix = [], qr_factorization = \<lparr> Q = [], R = [] \<rparr> \<rparr>"
      emptyOrInvalidMatrices]
  have ex: "execute ?gw ?req = (Inl emptyOrMalformed, [])"
    by (simp add: execute_def validateMatrix_def)
  have c1: "(\<exists>txt. emptyOrMalformed = AppErr (InvalidMatrixError (Some txt)))
        \<or> (\<exists>m d s. emptyOrMalformed = AppErr (GoApiError m d s))
        \<or> (\<exists>s. emptyOrMalformed = TypeError s)"
    using inst [THEN conjunct2, THEN conjunct2, THEN conjunct2, THEN conjunct2, THEN conjunct1] ex
    by (rule mp)
  have c2: "message (InvalidMatrixError (Some ''Input matrix is empty or malformed.'')) = ''Invalid matrix provided.''"
    using inst by (rule conjunct1)
  have h3: "thrown_response ?g = Some ?resp \<and> status ?resp = 400 \<and> data ?resp = Some ?b
        \<and> body_error ?b = Some ''dimensiones_de_matriz_invalidas''"
    by simp
  have "translateGatewayError ?g =
          AppErr (InvalidMatrixError (Some (orElse (body_details ?b) dimensionsFallback)))"
    using inst [THEN conjunct2, THEN conjunct2, THEN conjunct2, THEN conjunct2, THEN conjunct2,
      THEN conjunct2, THEN conjunct2, THEN conjunct1] h3
    by (rule mp)
  then have c3: "translateGatewayError ?g = AppErr (InvalidMatrixError (Some ''La matriz debe ser cuadrada.''))"
    by simp
  have h4: "calculateMatrixStatistics [[]] [[]] = Inl noNumericValues"
    by (simp add: calculateMatrixStatistics_def collectValues_def)
  have "noNumericValues = AppErr (InvalidMatrixError
               (Some ''No numeric values found in matrices to calculate statistics.''))"
    using inst [THEN conjunct2, THEN conjunct2, THEN conjunct2, THEN conjunct2, THEN conjunct2,
      THEN conjunct2, THEN conjunct2, THEN conjunct2, THEN conjunct1] h4
    by (rule mp)
  then have c4: "calculateMatrixStatistics [[]] [[]] = Inl (AppErr (InvalidMatrixError
        (Some ''No numeric values found in matrices to calculate statistics.'')))"
    using h4 by simp
  have c5: "validateMatrix (JArr []) = Inl (AppErr (InvalidMatrixError (Some ''Input matrix is empty or malformed.'')))"
    by (simp add: validateMatrix_def emptyOrMalformed_def)
  have "InvalidMatrixError (Some ''Input matrix is empty or malformed.'')
          = InvalidMatrixError (Some ''Input matrix is empty or malformed.'')
        \<or> InvalidMatrixError (Some ''Input matrix is empty or malformed.'') = InvalidMatrixError
              (Some ''Matrix must be rectangular (all rows must have the same number of columns).'')
        \<or> InvalidMatrixError (Some ''Input matrix is empty or malformed.'')
          = InvalidMatrixError (Some ''Matrix must contain only arrays of numbers.'')"
    using inst [THEN conjunct2, THEN conjunct2, THEN conjunct2, THEN conjunct2, THEN conjunct2,
      THEN conjunct2, THEN conjunct1] c5
    by (rule mp)
  have c6: "CalculateMatrixStatsUseCase_execute
        \<lparr> original_matrix = [], rotated_matrix = [], qr_factorization = \<lparr> Q = [], R = [] \<rparr> \<rparr>
      = Inl emptyOrInvalidMatrices"
    by (simp add: CalculateMatrixStatsUseCase_execute_def)
  have c7: "emptyOrInvalidMatrices = AppErr (InvalidMatrixError
               (Some ''Matrices provided are empty or invalid for statistics calculation.''))
        \<or> emptyOrInvalidMatrices = AppErr (InvalidMatrixError
               (Some ''No numeric values found in matrices to calculate statistics.''))"
    using inst [THEN conjunct2, THEN conjunct2, THEN conjunct2, THEN conjunct2, THEN conjunct2,
      THEN conjunct2, THEN conjunct2, THEN conjunct2, THEN conjunct2] c6
    by (rule mp)
  show ?thesis using ex c1 c2 c3 c4 c5 c6 c7 by (intro conjI)
qed

end
